theory Spec2Isabelle
  imports Main "HOL-Library.Sublist"
begin

section \<open>Errors\<close>

text \<open>
  Go error values as they occur in \<^verbatim>\<open>index/workspace.go\<close> and
  \<^verbatim>\<open>catalog/cataloger_revert_entry.go\<close>: the sentinel \<^verbatim>\<open>db.ErrNotFound\<close>, the catalog's
  \<^verbatim>\<open>ErrEntryNotFound\<close>, any other error (identified by its message), and an error that
  wraps another one. \<^verbatim>\<open>errors.Is\<close> walks the chain of wrapped errors.
\<close>

datatype error = ErrNotFound | ErrEntryNotFound | ErrOther string | ErrWrapped string error

fun errors_Is :: "error \<Rightarrow> error \<Rightarrow> bool" where
  "errors_Is (ErrWrapped msg inner) target =
     (ErrWrapped msg inner = target \<or> errors_Is inner target)"
| "errors_Is err target = (err = target)"

section \<open>Data model of the index\<close>

datatype entry_type = EntryTypeTree | EntryTypeObject

text \<open>\<^verbatim>\<open>model.Entry\<close>: a node of a committed tree (the fields the diff reads or sets).\<close>

record Entry =
  Name :: string
  Address :: string
  EntryType :: entry_type
  Checksum :: string
  ObjectCount :: int

datatype difference_type = DifferenceTypeAdded | DifferenceTypeChanged | DifferenceTypeRemoved

datatype difference_direction = DifferenceDirectionLeft | DifferenceDirectionRight

text \<open>\<^verbatim>\<open>merkle.Difference\<close>; \<^verbatim>\<open>merkle.Differences\<close> is a list of them.\<close>

record Difference =
  Type :: difference_type
  Direction :: difference_direction
  Path :: string
  PathType :: entry_type

text \<open>
  \<^verbatim>\<open>model.WorkspaceEntry\<close>: a staged change. \<^verbatim>\<open>EntryName\<close>, \<^verbatim>\<open>EntryType\<close> and
  \<^verbatim>\<open>EntryChecksum\<close> are pointers in the source (it dereferences them with \<^verbatim>\<open>*\<close>), so
  they are optional here and \<open>None\<close> is the nil pointer. The field names \<open>Path\<close> and
  \<open>EntryType\<close> also occur in the records above; unqualified they mean the fields of
  the workspace entry.
\<close>

record WorkspaceEntry =
  Path :: string
  EntryName :: "string option"
  EntryType :: "entry_type option"
  EntryChecksum :: "string option"
  TombstoneCount :: int

record Branch =
  CommitRoot :: string

record Merkle =
  root :: string

definition merkle_New :: "string \<Rightarrow> Merkle" where
  "merkle_New r = \<lparr>root = r\<rparr>"

text \<open>
  \<^verbatim>\<open>store.RepoOperations\<close>, the interface the diff reads through. Its implementation is
  not part of the sources, so the three methods used are parameters. A method returning
  \<^verbatim>\<open>(value, error)\<close> is a sum: \<open>Inl\<close> the error. \<^verbatim>\<open>ListWorkspaceDirectory\<close> takes
  branch, path, the two markers and the limit; its second result is discarded by the
  caller and the listed pointers are taken to be non-nil. \<^verbatim>\<open>ReadTreeEntry\<close> takes the
  parent address and the name; \<open>Inr None\<close> is a nil entry returned with a nil error.
\<close>

record RepoOperations =
  ReadBranch :: "string \<Rightarrow> error + Branch"
  ListWorkspaceDirectory ::
    "string \<Rightarrow> string \<Rightarrow> string \<Rightarrow> string \<Rightarrow> int \<Rightarrow> error + WorkspaceEntry list"
  ReadTreeEntry :: "string \<Rightarrow> string \<Rightarrow> error + Entry option"

section \<open>The recursive diff\<close>

text \<open>
  How a call of \<^verbatim>\<open>diffRecursive\<close> ends: it returns nil, it returns an error, or it
  panics on a nil pointer dereference. The accumulated differences are written through
  the \<^verbatim>\<open>result\<close> pointer, so they are returned next to the outcome in every case.
\<close>

datatype outcome = ReturnNil | ReturnErr error | NilDereference

text \<open>Every difference the source appends has direction left.\<close>

definition difference :: "difference_type \<Rightarrow> string \<Rightarrow> entry_type \<Rightarrow> Difference" where
  "difference ty p pt =
     \<lparr>Type = ty, Direction = DifferenceDirectionLeft, Difference.Path = p, PathType = pt\<rparr>"

text \<open>
  The object case (lines 46 to 55 of \<^verbatim>\<open>workspace.go\<close>): \<open>Some\<close> is an early return,
  \<open>None\<close> means that control falls through to the directory part. The conjunction
  \<^verbatim>\<open>TombstoneCount == 0 && entry.Checksum != *wsEntry.EntryChecksum\<close> evaluates its
  right side, and with it the dereference, only when the tombstone count is zero.
\<close>

definition diffObject ::
  "WorkspaceEntry option \<Rightarrow> Entry \<Rightarrow> Difference list \<Rightarrow> (outcome \<times> Difference list) option" where
  "diffObject wsEntry entry result =
     (case wsEntry of
        None \<Rightarrow> None
      | Some w \<Rightarrow>
          (case EntryType w of
             None \<Rightarrow> Some (NilDereference, result)
           | Some t \<Rightarrow>
               if t = EntryTypeObject then
                 (if TombstoneCount w = 0 then
                    (case EntryChecksum w of
                       None \<Rightarrow> Some (NilDereference, result)
                     | Some c \<Rightarrow>
                         if Checksum entry \<noteq> c
                         then Some (ReturnNil,
                                result @ [difference DifferenceTypeChanged (Path w) EntryTypeObject])
                         else None)
                  else if TombstoneCount w \<ge> 1 then Some (ReturnNil, result)
                  else None)
               else None))"

text \<open>
  The lookup of a staged child in the tree (lines 67 to 73): an error that is
  \<^verbatim>\<open>db.ErrNotFound\<close> is replaced by a nil entry, any other error is kept.
\<close>

definition readTreeEntryOrNil :: "RepoOperations \<Rightarrow> string \<Rightarrow> string \<Rightarrow> error + Entry option" where
  "readTreeEntryOrNil tx address name =
     (case ReadTreeEntry tx address name of
        Inl err \<Rightarrow> if errors_Is err ErrNotFound then Inr None else Inl err
      | Inr currentEntry \<Rightarrow> Inr currentEntry)"

text \<open>The path whose staged children are listed (lines 57 to 60): empty for a nil entry.\<close>

definition wsPath_of :: "WorkspaceEntry option \<Rightarrow> string" where
  "wsPath_of wsEntry = (case wsEntry of None \<Rightarrow> '''' | Some w \<Rightarrow> Path w)"

text \<open>
  \<^verbatim>\<open>diffRecursive\<close> with its loop over the staged children, \<open>diffChildren\<close>. The
  recursion follows what the store answers and is not structural, so the functions take
  fuel: every nested call of \<^verbatim>\<open>diffRecursive\<close> uses one unit, and \<open>None\<close> means
  that the fuel did not suffice. The arguments of \<open>ListWorkspaceDirectory\<close> after the
  path are the constants of the source. The parameter \<open>tree\<close> is only handed on.
\<close>

fun diffRecursive ::
  "nat \<Rightarrow> RepoOperations \<Rightarrow> string \<Rightarrow> WorkspaceEntry option \<Rightarrow> Entry option \<Rightarrow> Merkle
     \<Rightarrow> Difference list \<Rightarrow> (outcome \<times> Difference list) option"
and diffChildren ::
  "nat \<Rightarrow> RepoOperations \<Rightarrow> string \<Rightarrow> Entry \<Rightarrow> Merkle \<Rightarrow> WorkspaceEntry list
     \<Rightarrow> Difference list \<Rightarrow> (outcome \<times> Difference list) option"
where
  "diffRecursive 0 tx branch wsEntry entry tree result = None"
| "diffRecursive (Suc fuel) tx branch wsEntry None tree result =
     (case wsEntry of
        None \<Rightarrow> Some (NilDereference, result)
      | Some w \<Rightarrow>
          (case EntryType w of
             None \<Rightarrow> Some (NilDereference, result)
           | Some t \<Rightarrow> Some (ReturnNil, result @ [difference DifferenceTypeAdded (Path w) t])))"
| "diffRecursive (Suc fuel) tx branch wsEntry (Some entry) tree result =
     (case diffObject wsEntry entry result of
        Some r \<Rightarrow> Some r
      | None \<Rightarrow>
          (let wsPath = wsPath_of wsEntry in
           case ListWorkspaceDirectory tx branch wsPath '''' '''' (- 1) of
             Inl err \<Rightarrow> Some (ReturnErr err, result)
           | Inr wsEntriesInDir \<Rightarrow> diffChildren fuel tx branch entry tree wsEntriesInDir result))"
| "diffChildren fuel tx branch entry tree [] result = Some (ReturnNil, result)"
| "diffChildren fuel tx branch entry tree (currentWsEntry # rest) result =
     (case EntryName currentWsEntry of
        None \<Rightarrow> Some (NilDereference, result)
      | Some name \<Rightarrow>
          (case readTreeEntryOrNil tx (Address entry) name of
             Inl err \<Rightarrow> Some (ReturnErr err, result)
           | Inr currentEntry \<Rightarrow>
               if (case currentEntry of
                     None \<Rightarrow> False
                   | Some e \<Rightarrow> TombstoneCount currentWsEntry = ObjectCount e)
               then
                 (case EntryType currentWsEntry of
                    None \<Rightarrow> Some (NilDereference, result)
                  | Some t \<Rightarrow>
                      diffChildren fuel tx branch entry tree rest
                        (result @ [difference DifferenceTypeRemoved (Path currentWsEntry) t]))
               else
                 (case diffRecursive fuel tx branch (Some currentWsEntry) currentEntry tree result of
                    None \<Rightarrow> None
                  | Some (ReturnNil, result') \<Rightarrow> diffChildren fuel tx branch entry tree rest result'
                  | Some (out, result') \<Rightarrow> Some (out, result'))))"

section \<open>DiffWorkspace\<close>

text \<open>
  What a Go function with results \<^verbatim>\<open>(value, error)\<close> does: it returns a value and an
  optional error, or it panics.
\<close>

datatype 'a go_return = Returns 'a "error option" | Panics

text \<open>
  Modelled from the spec: \<^verbatim>\<open>RepoTransact\<close> of the store is missing from the sources. The
  transaction coordinator opens a transaction scoped to the repository, which may fail
  with a storage error, runs the function on the operations of that one snapshot and
  hands back what the function returned; a panic of the function passes through.
\<close>

record Store =
  begin_tx :: "string \<Rightarrow> error + RepoOperations"

definition RepoTransact ::
  "Store \<Rightarrow> string \<Rightarrow> (RepoOperations \<Rightarrow> 'a option go_return option) \<Rightarrow> 'a option go_return option" where
  "RepoTransact store repoId fn =
     (case begin_tx store repoId of
        Inl err \<Rightarrow> Some (Returns None (Some err))
      | Inr tx \<Rightarrow> fn tx)"

text \<open>The entry for the root of the committed tree (lines 19 to 24).\<close>

definition root_entry :: "Branch \<Rightarrow> Entry" where
  "root_entry branchData =
     \<lparr>Name = '''', Address = CommitRoot branchData, Entry.EntryType = EntryTypeTree,
      Checksum = '''', ObjectCount = 0\<rparr>"

text \<open>
  \<^verbatim>\<open>DiffWorkspace\<close> (lines 11 to 36). The function passed to the transaction returns the
  result as an interface value (\<open>None\<close> is the nil interface); the type assertion
  \<^verbatim>\<open>res.(merkle.Differences)\<close> panics on nil. A nil slice of differences is the empty
  list. The log line written on failure has no effect on the result.
\<close>

definition DiffWorkspace ::
  "nat \<Rightarrow> Store \<Rightarrow> string \<Rightarrow> string \<Rightarrow> Difference list go_return option" where
  "DiffWorkspace fuel store repoId branch =
     (case RepoTransact store repoId
             (\<lambda>tx. case ReadBranch tx branch of
                      Inl err \<Rightarrow> Some (Returns None (Some err))
                    | Inr branchData \<Rightarrow>
                        (let tree = merkle_New (CommitRoot branchData);
                             root = root_entry branchData
                         in case diffRecursive fuel tx branch None (Some root) tree [] of
                              None \<Rightarrow> None
                            | Some (ReturnNil, result) \<Rightarrow> Some (Returns (Some result) None)
                            | Some (ReturnErr err, result) \<Rightarrow> Some (Returns None (Some err))
                            | Some (NilDereference, result) \<Rightarrow> Some Panics)) of
        None \<Rightarrow> None
      | Some Panics \<Rightarrow> Some Panics
      | Some (Returns res (Some err)) \<Rightarrow> Some (Returns [] (Some err))
      | Some (Returns None None) \<Rightarrow> Some Panics
      | Some (Returns (Some ds) None) \<Rightarrow> Some (Returns ds None))"

section \<open>RevertEntry\<close>

text \<open>
  The rows of the \<^verbatim>\<open>entries\<close> table, with the columns the statement of
  \<^verbatim>\<open>RevertEntry\<close> mentions. The table is a list: nothing in the source keeps two rows
  from agreeing on all three columns.
\<close>

record entries_row =
  branch_id :: int
  path :: string
  min_commit :: int

record db_state =
  entries :: "entries_row list"

text \<open>
  The lock intents of \<^verbatim>\<open>getBranchID\<close>. The source names \<^verbatim>\<open>LockTypeShare\<close> only; the
  second constructor stands for the exclusive intent.
\<close>

datatype lock_type = LockTypeShare | LockTypeExclusive

text \<open>
  What \<^verbatim>\<open>RevertEntry\<close> calls and the sources do not hold, as parameters: the validation
  of the three names (\<open>None\<close>: valid), \<^verbatim>\<open>getBranchID\<close>, and the failures that the
  transaction itself, \<^verbatim>\<open>tx.Exec\<close> and \<^verbatim>\<open>res.RowsAffected\<close> may report.
\<close>

record collaborators =
  Validate :: "string \<Rightarrow> string \<Rightarrow> string \<Rightarrow> error option"
  getBranchID :: "db_state \<Rightarrow> string \<Rightarrow> string \<Rightarrow> lock_type \<Rightarrow> error + int"
  transact_failure :: "error option"
  exec_failure :: "error option"
  rows_affected_failure :: "error option"

text \<open>
  The statement
  \<^verbatim>\<open>DELETE FROM entries WHERE branch_id = $1 AND path = $2 AND min_commit = 0\<close>:
  the table without the matching rows, and the number of rows deleted.
\<close>

definition staged_at :: "int \<Rightarrow> string \<Rightarrow> entries_row \<Rightarrow> bool" where
  "staged_at branchID p r = (branch_id r = branchID \<and> path r = p \<and> min_commit r = 0)"

definition tx_Exec_delete :: "db_state \<Rightarrow> int \<Rightarrow> string \<Rightarrow> db_state \<times> int" where
  "tx_Exec_delete tx branchID p =
     (tx\<lparr>entries := filter (\<lambda>r. \<not> staged_at branchID p r) (entries tx)\<rparr>,
      int (length (filter (staged_at branchID p) (entries tx))))"

text \<open>
  Modelled from the spec: \<^verbatim>\<open>db.Transact\<close> is missing from the sources. The transaction
  may fail by itself with a storage error and then changes nothing. Otherwise the
  function runs on the state of the database; its changes are kept when it returns no
  error and rolled back when it returns one.
\<close>

definition db_Transact ::
  "error option \<Rightarrow> db_state \<Rightarrow> (db_state \<Rightarrow> error option \<times> db_state)
     \<Rightarrow> error option \<times> db_state" where
  "db_Transact failure db fn =
     (case failure of
        Some err \<Rightarrow> (Some err, db)
      | None \<Rightarrow>
          (case fn db of
             (None, tx') \<Rightarrow> (None, tx')
           | (Some err, tx') \<Rightarrow> (Some err, db)))"

text \<open>
  \<^verbatim>\<open>RevertEntry\<close>: the error returned (\<open>None\<close> is nil) and the database after the
  call. The parameter \<open>p\<close> is the path.
\<close>

definition RevertEntry ::
  "collaborators \<Rightarrow> db_state \<Rightarrow> string \<Rightarrow> string \<Rightarrow> string \<Rightarrow> error option \<times> db_state" where
  "RevertEntry c db repository branch p =
     (case Validate c repository branch p of
        Some err \<Rightarrow> (Some err, db)
      | None \<Rightarrow>
          db_Transact (transact_failure c) db
            (\<lambda>tx. case getBranchID c tx repository branch LockTypeShare of
                     Inl err \<Rightarrow> (Some err, tx)
                   | Inr branchID \<Rightarrow>
                       (case exec_failure c of
                          Some err \<Rightarrow> (Some err, tx)
                        | None \<Rightarrow>
                            (case tx_Exec_delete tx branchID p of
                               (tx', affected) \<Rightarrow>
                                 (case rows_affected_failure c of
                                    Some err \<Rightarrow> (Some err, tx')
                                  | None \<Rightarrow>
                                      if affected \<noteq> 1 then (Some ErrEntryNotFound, tx')
                                      else (None, tx'))))))"


section \<open>Predicates used in the statements\<close>



text \<open>A workspace entry that some listing of the store returns.\<close>

definition staged :: "RepoOperations \<Rightarrow> string \<Rightarrow> WorkspaceEntry \<Rightarrow> bool" where
  "staged tx branch c =
     (\<exists>p cs. ListWorkspaceDirectory tx branch p '''' '''' (- 1) = Inr cs \<and> c \<in> set cs)"

text \<open>
  A Removed difference as the loop over the children emits it: for a staged entry whose
  tombstone count equals the object count of a tree entry of the same name.
\<close>

definition removed_at_parent :: "RepoOperations \<Rightarrow> string \<Rightarrow> Difference \<Rightarrow> bool" where
  "removed_at_parent tx branch d =
     (\<exists>c a n e t. staged tx branch c \<and> EntryName c = Some n \<and>
        ReadTreeEntry tx a n = Inr (Some e) \<and> TombstoneCount c = ObjectCount e \<and>
        EntryType c = Some t \<and> d = difference DifferenceTypeRemoved (Path c) t)"

definition parent_removals :: "RepoOperations \<Rightarrow> string \<Rightarrow> Difference list \<Rightarrow> bool" where
  "parent_removals tx branch ds =
     (\<forall>d \<in> set ds. Type d = DifferenceTypeRemoved \<longrightarrow> removed_at_parent tx branch d)"

text \<open>
  Every listing returns only entries whose paths properly extend the listed path, and
  the paths that listings return are no longer than \<open>N\<close>.
\<close>

definition listing_deeper :: "RepoOperations \<Rightarrow> string \<Rightarrow> bool" where
  "listing_deeper tx branch =
     (\<forall>p cs c. ListWorkspaceDirectory tx branch p '''' '''' (- 1) = Inr cs \<longrightarrow> c \<in> set cs \<longrightarrow>
        strict_prefix p (Path c))"

definition listing_bounded :: "RepoOperations \<Rightarrow> string \<Rightarrow> nat \<Rightarrow> bool" where
  "listing_bounded tx branch N =
     (\<forall>p cs c. ListWorkspaceDirectory tx branch p '''' '''' (- 1) = Inr cs \<longrightarrow> c \<in> set cs \<longrightarrow>
        length (Path c) \<le> N)"

section \<open>Stores and tables used as concrete inputs\<close>

definition ws_object :: "string \<Rightarrow> string \<Rightarrow> string option \<Rightarrow> int \<Rightarrow> WorkspaceEntry" where
  "ws_object p n c k =
     \<lparr>Path = p, EntryName = Some n, EntryType = Some EntryTypeObject, EntryChecksum = c,
      TombstoneCount = k\<rparr>"

definition ws_tree :: "string \<Rightarrow> string \<Rightarrow> int \<Rightarrow> WorkspaceEntry" where
  "ws_tree p n k =
     \<lparr>Path = p, EntryName = Some n, EntryType = Some EntryTypeTree, EntryChecksum = None,
      TombstoneCount = k\<rparr>"

definition tree_object :: "string \<Rightarrow> string \<Rightarrow> string \<Rightarrow> int \<Rightarrow> Entry" where
  "tree_object n a c k =
     \<lparr>Name = n, Address = a, Entry.EntryType = EntryTypeObject, Checksum = c, ObjectCount = k\<rparr>"

definition tree_dir :: "string \<Rightarrow> string \<Rightarrow> int \<Rightarrow> Entry" where
  "tree_dir n a k =
     \<lparr>Name = n, Address = a, Entry.EntryType = EntryTypeTree, Checksum = '''', ObjectCount = k\<rparr>"

text \<open>
  The branch \<open>main\<close>. Its commit has the object \<open>a.txt\<close>, the directory \<open>dir\<close>
  with object count two and the entries \<open>w\<close> (object count zero), \<open>x\<close> and \<open>y\<close>
  (object count one each), and the directory \<open>gone\<close> with object count three.
  Staged at the root: new content for \<open>a.txt\<close>, \<open>dir/\<close> with one tombstone,
  \<open>gone/\<close> with three tombstones, and a new object \<open>new.txt\<close>. Staged below
  \<open>dir/\<close>: tombstones for \<open>w\<close> and \<open>x\<close>, the content of \<open>y\<close> as the tree has
  it, and a new object \<open>z\<close>.
\<close>

definition demo_listing :: "string \<Rightarrow> string \<Rightarrow> error + WorkspaceEntry list" where
  "demo_listing b p =
     (if b = ''main'' \<and> p = '''' then
        Inr [ws_object ''a.txt'' ''a.txt'' (Some ''c2'') 0,
             ws_tree ''dir/'' ''dir'' 1,
             ws_tree ''gone/'' ''gone'' 3,
             ws_object ''new.txt'' ''new.txt'' (Some ''cn'') 0]
      else if b = ''main'' \<and> p = ''dir/'' then
        Inr [ws_object ''dir/w'' ''w'' None 1,
             ws_object ''dir/x'' ''x'' None 1,
             ws_object ''dir/y'' ''y'' (Some ''cy'') 0,
             ws_object ''dir/z'' ''z'' (Some ''cz'') 0]
      else Inr [])"

definition demo_tree :: "string \<Rightarrow> string \<Rightarrow> error + Entry option" where
  "demo_tree a n =
     (if a = ''r0'' \<and> n = ''a.txt'' then Inr (Some (tree_object ''a.txt'' ''o1'' ''c1'' 1))
      else if a = ''r0'' \<and> n = ''dir'' then Inr (Some (tree_dir ''dir'' ''t1'' 2))
      else if a = ''r0'' \<and> n = ''gone'' then Inr (Some (tree_dir ''gone'' ''t2'' 3))
      else if a = ''t1'' \<and> n = ''w'' then Inr (Some (tree_object ''w'' ''o2'' ''cw'' 0))
      else if a = ''t1'' \<and> n = ''x'' then Inr (Some (tree_object ''x'' ''o3'' ''cx'' 1))
      else if a = ''t1'' \<and> n = ''y'' then Inr (Some (tree_object ''y'' ''o4'' ''cy'' 1))
      else Inl ErrNotFound)"

definition demo_ops :: RepoOperations where
  "demo_ops =
     \<lparr>ReadBranch = (\<lambda>b. if b = ''main'' then Inr \<lparr>CommitRoot = ''r0''\<rparr> else Inl ErrNotFound),
      ListWorkspaceDirectory = (\<lambda>b p after token limit. demo_listing b p),
      ReadTreeEntry = demo_tree\<rparr>"





text \<open>A store whose only staged entry is an object without checksum and tombstone.\<close>

definition nil_checksum_ops :: RepoOperations where
  "nil_checksum_ops =
     demo_ops\<lparr>ListWorkspaceDirectory :=
       (\<lambda>b p after token limit.
          if p = '''' then Inr [ws_object ''a.txt'' ''a.txt'' None 0] else Inr [])\<rparr>"

definition nil_checksum_store :: Store where
  "nil_checksum_store = \<lparr>begin_tx = (\<lambda>repoId. Inr nil_checksum_ops)\<rparr>"

text \<open>
  A store that stages the object \<open>a.txt\<close> with the content the tree has, and lists a
  staged object below the path of that object.
\<close>

definition below_object_ops :: RepoOperations where
  "below_object_ops =
     demo_ops\<lparr>ListWorkspaceDirectory :=
       (\<lambda>b p after token limit.
          if p = '''' then Inr [ws_object ''a.txt'' ''a.txt'' (Some ''c1'') 0]
          else if p = ''a.txt'' then Inr [ws_object ''a.txt/x'' ''x'' (Some ''cx'') 0]
          else Inr [])\<rparr>"

text \<open>
  A store with an empty tree that stages a new directory \<open>newdir/\<close> and, below it, a
  new object \<open>newdir/z\<close>.
\<close>

definition new_dir_ops :: RepoOperations where
  "new_dir_ops =
     \<lparr>ReadBranch = (\<lambda>b. Inr \<lparr>CommitRoot = ''r0''\<rparr>),
      ListWorkspaceDirectory = (\<lambda>b p after token limit.
         if p = '''' then Inr [ws_tree ''newdir/'' ''newdir'' 0]
         else if p = ''newdir/'' then Inr [ws_object ''newdir/z'' ''z'' (Some ''cz'') 0]
         else Inr []),
      ReadTreeEntry = (\<lambda>a n. Inl ErrNotFound)\<rparr>"

definition new_dir_store :: Store where
  "new_dir_store = \<lparr>begin_tx = (\<lambda>repoId. Inr new_dir_ops)\<rparr>"

text \<open>The demonstration store with \<open>new.txt\<close> as its only staged entry.\<close>

definition single_added_ops :: RepoOperations where
  "single_added_ops =
     demo_ops\<lparr>ListWorkspaceDirectory :=
       (\<lambda>b p after token limit.
          if p = '''' then Inr [ws_object ''new.txt'' ''new.txt'' (Some ''cn'') 0] else Inr [])\<rparr>"

definition single_added_store :: Store where
  "single_added_store = \<lparr>begin_tx = (\<lambda>repoId. Inr single_added_ops)\<rparr>"



text \<open>A store in which every listed path has a staged directory below it.\<close>

definition deep_ops :: RepoOperations where
  "deep_ops =
     \<lparr>ReadBranch = (\<lambda>b. Inr \<lparr>CommitRoot = ''r0''\<rparr>),
      ListWorkspaceDirectory = (\<lambda>b p after token limit. Inr [ws_tree (p @ ''d/'') ''d'' 0]),
      ReadTreeEntry = (\<lambda>a n. Inr (Some (tree_dir ''d'' ''t'' 1)))\<rparr>"

text \<open>Collaborators and tables for \<open>RevertEntry\<close>.\<close>

definition demo_collaborators :: collaborators where
  "demo_collaborators =
     \<lparr>Validate = (\<lambda>repository branch p.
        if p = '''' then Some (ErrOther ''invalid path'') else None),
      getBranchID = (\<lambda>tx repository branch lock.
        if repository = ''repo'' \<and> branch = ''main'' then Inr 1
        else Inl (ErrOther ''branch not found'')),
      transact_failure = None,
      exec_failure = None,
      rows_affected_failure = None\<rparr>"

definition row :: "int \<Rightarrow> string \<Rightarrow> int \<Rightarrow> entries_row" where
  "row b p m = \<lparr>branch_id = b, path = p, min_commit = m\<rparr>"

definition demo_db :: db_state where
  "demo_db = \<lparr>entries = [row 1 ''a/b'' 0, row 1 ''a/b'' 5, row 2 ''a/b'' 0, row 1 ''q'' 7]\<rparr>"

definition duplicate_db :: db_state where
  "duplicate_db = \<lparr>entries = [row 1 ''a/b'' 0, row 1 ''a/b'' 0]\<rparr>"

section \<open>How a call ends: case rules\<close>

text \<open>
  The ways in which the loop over a non-empty list of children can end: the name of the
  first child is nil; the tree lookup fails; the child is fully tombstoned (and its type
  is nil, or the loop goes on after the Removed difference); the nested call does not
  return nil; or it does and the loop goes on.
\<close>

lemma diffChildren_ConsE:
  assumes "diffChildren fuel tx branch entry tree (c # rest) result = Some (out, r)"
  obtains
    (nil_name) "EntryName c = None" "out = NilDereference" "r = result"
  | (read_err) name err where "EntryName c = Some name"
      "readTreeEntryOrNil tx (Address entry) name = Inl err" "out = ReturnErr err" "r = result"
  | (nil_type) name e where "EntryName c = Some name"
      "readTreeEntryOrNil tx (Address entry) name = Inr (Some e)"
      "TombstoneCount c = ObjectCount e" "EntryType c = None"
      "out = NilDereference" "r = result"
  | (removed) name e t where "EntryName c = Some name"
      "readTreeEntryOrNil tx (Address entry) name = Inr (Some e)"
      "TombstoneCount c = ObjectCount e" "EntryType c = Some t"
      "diffChildren fuel tx branch entry tree rest
         (result @ [difference DifferenceTypeRemoved (Path c) t]) = Some (out, r)"
  | (stop) name ce where "EntryName c = Some name"
      "readTreeEntryOrNil tx (Address entry) name = Inr ce"
      "\<not> (case ce of None \<Rightarrow> False | Some e \<Rightarrow> TombstoneCount c = ObjectCount e)"
      "diffRecursive fuel tx branch (Some c) ce tree result = Some (out, r)"
      "out \<noteq> ReturnNil"
  | (continue) name ce r1 where "EntryName c = Some name"
      "readTreeEntryOrNil tx (Address entry) name = Inr ce"
      "\<not> (case ce of None \<Rightarrow> False | Some e \<Rightarrow> TombstoneCount c = ObjectCount e)"
      "diffRecursive fuel tx branch (Some c) ce tree result = Some (ReturnNil, r1)"
      "diffChildren fuel tx branch entry tree rest r1 = Some (out, r)"
proof (cases "EntryName c")
  case None
  with assms nil_name show ?thesis by simp
next
  case (Some name)
  note n = this
  show ?thesis
  proof (cases "readTreeEntryOrNil tx (Address entry) name")
    case (Inl err)
    with assms n read_err show ?thesis by simp
  next
    case (Inr ce)
    note rd = this
    show ?thesis
    proof (cases "case ce of None \<Rightarrow> False | Some e \<Rightarrow> TombstoneCount c = ObjectCount e")
      case True
      then obtain e where e: "ce = Some e" "TombstoneCount c = ObjectCount e"
        by (cases ce) auto
      show ?thesis
      proof (cases "EntryType c")
        case None
        with assms n rd e nil_type show ?thesis by simp
      next
        case (Some t)
        with assms n rd e removed show ?thesis by simp
      qed
    next
      case False
      note part = this
      from assms n rd part obtain out1 r1 where
        rec: "diffRecursive fuel tx branch (Some c) ce tree result = Some (out1, r1)"
        by (auto split: option.splits)
      show ?thesis
      proof (cases "out1 = ReturnNil")
        case True
        with assms n rd part rec continue show ?thesis by simp
      next
        case False
        with assms n rd part rec have "out = out1" "r = r1"
          by (cases out1; simp)+
        with n rd part rec False stop show ?thesis by simp
      qed
    qed
  qed
qed

text \<open>
  A call with a tree entry ends in the object case, with the error of the listing, or
  with the loop over the listed children. The object case ends in one of four ways.
\<close>

lemma diffRecursive_SucE:
  assumes "diffRecursive (Suc fuel) tx branch wsEntry (Some entry) tree result = Some (out, r)"
  obtains
    (object) "diffObject wsEntry entry result = Some (out, r)"
  | (list_err) err where "diffObject wsEntry entry result = None"
      "ListWorkspaceDirectory tx branch (wsPath_of wsEntry) '''' '''' (- 1) = Inl err"
      "out = ReturnErr err" "r = result"
  | (children) cs where "diffObject wsEntry entry result = None"
      "ListWorkspaceDirectory tx branch (wsPath_of wsEntry) '''' '''' (- 1) = Inr cs"
      "diffChildren fuel tx branch entry tree cs result = Some (out, r)"
  using assms by (auto split: option.splits sum.splits simp: Let_def)

lemma diffObject_SomeE:
  assumes "diffObject wsEntry entry result = Some (out, r)"
  obtains
    (nil_type) w where "wsEntry = Some w" "EntryType w = None" "out = NilDereference" "r = result"
  | (nil_checksum) w where "wsEntry = Some w" "EntryType w = Some EntryTypeObject"
      "TombstoneCount w = 0" "EntryChecksum w = None" "out = NilDereference" "r = result"
  | (changed) w c where "wsEntry = Some w" "EntryType w = Some EntryTypeObject"
      "TombstoneCount w = 0" "EntryChecksum w = Some c" "Checksum entry \<noteq> c" "out = ReturnNil"
      "r = result @ [difference DifferenceTypeChanged (Path w) EntryTypeObject]"
  | (tombstoned) w where "wsEntry = Some w" "EntryType w = Some EntryTypeObject"
      "TombstoneCount w \<ge> 1" "out = ReturnNil" "r = result"
  using assms by (auto simp: diffObject_def split: option.splits if_splits)

section \<open>Where errors and removals come from\<close>


lemma readTreeEntryOrNil_Some:
  "readTreeEntryOrNil tx a n = Inr (Some e) \<Longrightarrow> ReadTreeEntry tx a n = Inr (Some e)"
  by (auto simp: readTreeEntryOrNil_def split: sum.splits if_splits)


text \<open>
  The traversal only appends to the result, and every Removed difference it appends
  comes from the comparison in the loop, for a listed entry.
\<close>

lemma parent_removals_simps:
  "parent_removals tx branch []"
  "parent_removals tx branch (xs @ ys) =
     (parent_removals tx branch xs \<and> parent_removals tx branch ys)"
  "parent_removals tx branch [difference DifferenceTypeAdded p t]"
  "parent_removals tx branch [difference DifferenceTypeChanged p t]"
  by (auto simp: parent_removals_def difference_def)

lemma diff_removed_provenance:
  shows "diffRecursive fuel tx branch wsEntry entry tree result = Some (out, r) \<Longrightarrow>
         \<exists>ds. r = result @ ds \<and> parent_removals tx branch ds"
    and "diffChildren fuel tx branch e tree cs result = Some (out, r) \<Longrightarrow>
         \<forall>c \<in> set cs. staged tx branch c \<Longrightarrow>
         \<exists>ds. r = result @ ds \<and> parent_removals tx branch ds"
proof (induction fuel tx branch wsEntry entry tree result and fuel tx branch e tree cs result
       arbitrary: out r and out r rule: diffRecursive_diffChildren.induct)
  case (1 tx branch wsEntry entry tree result)
  then show ?case by simp
next
  case (2 fuel tx branch wsEntry tree result)
  then show ?case
    by (auto split: option.splits simp: parent_removals_simps)
next
  case (3 fuel tx branch wsEntry entry tree result)
  from "3.prems" show ?case
  proof (cases rule: diffRecursive_SucE)
    case object
    then show ?thesis
      by (cases rule: diffObject_SomeE) (simp_all add: parent_removals_simps)
  next
    case (list_err err')
    then show ?thesis by (simp add: parent_removals_simps)
  next
    case (children cs)
    from children(2) have "\<forall>c \<in> set cs. staged tx branch c"
      by (auto simp: staged_def)
    from "3.IH"[OF children(1) refl children(2) children(3) this] show ?thesis .
  qed
next
  case (4 fuel tx branch entry tree result)
  then show ?case by (simp add: parent_removals_simps)
next
  case (5 fuel tx branch entry tree c rest result)
  from "5.prems"(2) have c: "staged tx branch c" and rest: "\<forall>c \<in> set rest. staged tx branch c"
    by simp_all
  from "5.prems"(1) show ?case
  proof (cases rule: diffChildren_ConsE)
    case nil_name
    then show ?thesis by (simp add: parent_removals_simps)
  next
    case (read_err name err')
    then show ?thesis by (simp add: parent_removals_simps)
  next
    case (nil_type name e)
    then show ?thesis by (simp add: parent_removals_simps)
  next
    case (removed name e t)
    from "5.IH"(1)[OF removed(1) removed(2) _ removed(4) removed(5) rest] removed(3)
    obtain ds where ds: "r = (result @ [difference DifferenceTypeRemoved (Path c) t]) @ ds"
      "parent_removals tx branch ds" by auto
    from c removed readTreeEntryOrNil_Some[OF removed(2)]
    have "removed_at_parent tx branch (difference DifferenceTypeRemoved (Path c) t)"
      unfolding removed_at_parent_def by blast
    then have "parent_removals tx branch [difference DifferenceTypeRemoved (Path c) t]"
      by (simp add: parent_removals_def)
    with ds show ?thesis by (auto simp: parent_removals_def)
  next
    case (stop name ce)
    from "5.IH"(2)[OF stop(1) stop(2) stop(3) stop(4)] show ?thesis .
  next
    case (continue name ce r1)
    from "5.IH"(2)[OF continue(1) continue(2) continue(3) continue(4)]
    obtain ds1 where ds1: "r1 = result @ ds1" "parent_removals tx branch ds1" by auto
    from "5.IH"(3)[OF continue(1) continue(2) continue(3) continue(4) refl refl continue(5) rest]
    obtain ds2 where ds2: "r = r1 @ ds2" "parent_removals tx branch ds2" by auto
    from ds1 ds2 show ?thesis by (simp add: parent_removals_simps)
  qed
qed

section \<open>Fuel\<close>

text \<open>More fuel does not change a result.\<close>

lemma diffRecursive_fuel_mono:
  shows "diffRecursive fuel tx branch wsEntry entry tree result = Some r \<Longrightarrow>
         diffRecursive (fuel + k) tx branch wsEntry entry tree result = Some r"
    and "diffChildren fuel tx branch e tree cs result = Some r \<Longrightarrow>
         diffChildren (fuel + k) tx branch e tree cs result = Some r"
proof (induction fuel tx branch wsEntry entry tree result and fuel tx branch e tree cs result
       arbitrary: r and r rule: diffRecursive_diffChildren.induct)
  case (1 tx branch wsEntry entry tree result)
  then show ?case by simp
next
  case (2 fuel tx branch wsEntry tree result)
  then show ?case by simp
next
  case (3 fuel tx branch wsEntry entry tree result)
  obtain out r' where r: "r = (out, r')" by (cases r)
  from "3.prems"[unfolded r] show ?case
  proof (cases rule: diffRecursive_SucE)
    case object
    then show ?thesis by (simp add: r)
  next
    case (list_err err)
    then show ?thesis by (simp add: r)
  next
    case (children cs)
    from "3.IH"[OF children(1) refl children(2) children(3)] children(1,2)
    show ?thesis by (simp add: r)
  qed
next
  case (4 fuel tx branch entry tree result)
  then show ?case by simp
next
  case (5 fuel tx branch entry tree c rest result)
  obtain out r' where r: "r = (out, r')" by (cases r)
  from "5.prems"[unfolded r] show ?case
  proof (cases rule: diffChildren_ConsE)
    case nil_name
    then show ?thesis by (simp add: r)
  next
    case (read_err name err)
    then show ?thesis by (simp add: r)
  next
    case (nil_type name e)
    then show ?thesis by (simp add: r)
  next
    case (removed name e t)
    from "5.IH"(1)[OF removed(1) removed(2) _ removed(4) removed(5)] removed(1-4)
    show ?thesis by (simp add: r)
  next
    case (stop name ce)
    from "5.IH"(2)[OF stop(1) stop(2) stop(3) stop(4)] stop(1-3,5)
    show ?thesis by (cases out) (simp_all add: r)
  next
    case (continue name ce r1)
    from "5.IH"(2)[OF continue(1) continue(2) continue(3) continue(4)]
      "5.IH"(3)[OF continue(1) continue(2) continue(3) continue(4) refl refl continue(5)]
      continue(1-3)
    show ?thesis by (simp add: r)
  qed
qed

text \<open>The loop returns when the nested calls for its children return.\<close>

lemma diffChildren_returns:
  assumes "\<And>c ce res. c \<in> set cs \<Longrightarrow>
             diffRecursive fuel tx branch (Some c) ce tree res \<noteq> None"
  shows "diffChildren fuel tx branch entry tree cs result \<noteq> None"
  using assms
proof (induction cs arbitrary: result)
  case Nil
  then show ?case by simp
next
  case (Cons c rest)
  have rest: "\<And>res. diffChildren fuel tx branch entry tree rest res \<noteq> None"
    using Cons by simp
  have rec: "\<And>ce res. diffRecursive fuel tx branch (Some c) ce tree res \<noteq> None"
    using Cons.prems by simp
  show ?case
  proof (cases "EntryName c")
    case None
    then show ?thesis by simp
  next
    case (Some name)
    show ?thesis
    proof (cases "readTreeEntryOrNil tx (Address entry) name")
      case (Inl err)
      with Some show ?thesis by simp
    next
      case (Inr ce)
      from rec[of ce result] obtain out r1 where
        "diffRecursive fuel tx branch (Some c) ce tree result = Some (out, r1)" by auto
      with Some Inr rest show ?thesis
        by (cases out) (auto split: option.splits)
    qed
  qed
qed

text \<open>
  When the listings go strictly deeper and their paths are no longer than \<open>N\<close>, a
  call for a path of length \<open>l\<close> returns with \<open>N - l + 1\<close> units of fuel: by induction
  on that distance.
\<close>

lemma diffRecursive_returns:
  assumes deeper: "listing_deeper tx branch" and bounded: "listing_bounded tx branch N"
  shows "N - length (wsPath_of wsEntry) \<le> k \<Longrightarrow>
         diffRecursive (Suc k) tx branch wsEntry entry tree result \<noteq> None"
proof (induction k arbitrary: wsEntry entry result)
  case 0
  show ?case
  proof (cases entry)
    case None
    then show ?thesis by (simp split: option.splits)
  next
    case (Some e)
    show ?thesis
    proof (cases "diffObject wsEntry e result")
      case (Some r)
      with \<open>entry = Some e\<close> show ?thesis by simp
    next
      case None
      show ?thesis
      proof (cases "ListWorkspaceDirectory tx branch (wsPath_of wsEntry) '''' '''' (- 1)")
        case (Inl err)
        with None \<open>entry = Some e\<close> show ?thesis by (simp add: wsPath_of_def)
      next
        case (Inr cs)
        have "cs = []"
        proof (rule ccontr)
          assume "cs \<noteq> []"
          then obtain c where c: "c \<in> set cs" by (cases cs) auto
          from deeper Inr c have "length (wsPath_of wsEntry) < length (Path c)"
            unfolding listing_deeper_def using prefix_length_less by blast
          moreover from bounded Inr c have "length (Path c) \<le> N"
            unfolding listing_bounded_def by blast
          ultimately show False using "0.prems" by simp
        qed
        with None Inr \<open>entry = Some e\<close> show ?thesis by (simp add: wsPath_of_def)
      qed
    qed
  qed
next
  case (Suc k)
  show ?case
  proof (cases entry)
    case None
    then show ?thesis by (simp split: option.splits)
  next
    case (Some e)
    show ?thesis
    proof (cases "diffObject wsEntry e result")
      case (Some r)
      with \<open>entry = Some e\<close> show ?thesis by simp
    next
      case None
      show ?thesis
      proof (cases "ListWorkspaceDirectory tx branch (wsPath_of wsEntry) '''' '''' (- 1)")
        case (Inl err)
        with None \<open>entry = Some e\<close> show ?thesis by (simp add: wsPath_of_def)
      next
        case (Inr cs)
        have "diffChildren (Suc k) tx branch e tree cs result \<noteq> None"
        proof (rule diffChildren_returns)
          fix c ce res
          assume c: "c \<in> set cs"
          from deeper Inr c have "length (wsPath_of wsEntry) < length (Path c)"
            unfolding listing_deeper_def using prefix_length_less by blast
          moreover from bounded Inr c have "length (Path c) \<le> N"
            unfolding listing_bounded_def by blast
          ultimately have "N - length (wsPath_of (Some c)) \<le> k"
            using Suc.prems by (simp add: wsPath_of_def)
          from Suc.IH[OF this] show "diffRecursive (Suc k) tx branch (Some c) ce tree res \<noteq> None" .
        qed
        with None Inr \<open>entry = Some e\<close> show ?thesis by (simp add: wsPath_of_def)
      qed
    qed
  qed
qed

text \<open>
  In the store that lists a directory below every path, no call for the root or for a
  staged directory returns, whatever the fuel.
\<close>

lemma deep_ops_never_returns:
  "diffRecursive fuel deep_ops branch None (Some entry) tree result = None \<and>
   (EntryType w = Some EntryTypeTree \<longrightarrow>
      diffRecursive fuel deep_ops branch (Some w) (Some entry) tree result = None)"
proof (induction fuel arbitrary: w entry result)
  case 0
  then show ?case by simp
next
  case (Suc fuel)
  have "diffChildren fuel deep_ops branch e tree [ws_tree p ''d'' 0] res = None" for e p res
    using Suc[where w = "ws_tree p ''d'' 0" and entry = "tree_dir ''d'' ''t'' 1" and result = res]
    by (simp add: deep_ops_def readTreeEntryOrNil_def ws_tree_def tree_dir_def)
  then show ?case
    by (simp add: diffObject_def deep_ops_def)
qed

lemma deep_ops_deeper: "listing_deeper deep_ops branch"
  by (auto simp: listing_deeper_def deep_ops_def ws_tree_def strict_prefix_def)

section \<open>Evaluation of the concrete inputs\<close>

lemmas demo_simps = demo_ops_def demo_listing_def demo_tree_def ws_object_def
  ws_tree_def tree_object_def tree_dir_def root_entry_def


text \<open>The listings of the demonstration store go deeper and are bounded.\<close>

lemma demo_listing_deeper: "listing_deeper demo_ops ''main''"
  by (auto simp: listing_deeper_def demo_ops_def demo_listing_def ws_object_def ws_tree_def
      split: if_splits)

lemma demo_listing_bounded: "listing_bounded demo_ops ''main'' 7"
  by (auto simp: listing_bounded_def demo_ops_def demo_listing_def ws_object_def ws_tree_def
      split: if_splits)

section \<open>The nil tree entry: Added\<close>

text \<open>
  C7. A call of \<open>diffRecursive\<close> whose tree entry is nil appends exactly one Added
  difference with the path and the entry type of the workspace entry and returns nil.
  That branch of the recursion ends there: the equation holds for every store, with one
  unit of fuel, and whatever the store lists (second part), so for a new directory
  nothing below it is visited. Seen from a loop that reaches the entry: a staged child
  whose name the tree entry of the listed directory does not have (the lookup answers
  not found) contributes exactly that one Added difference, and the loop goes on with
  the next child. So an object staged at the root, as the only entry, with no tree
  counterpart gives a diff of exactly one Added difference for its path. An object
  staged below a directory that itself has no tree counterpart is never reached, as the
  store \<open>new_dir_ops\<close> shows after the theorem.
\<close>

theorem diffRecursive_nil_entry_Added:
  assumes "EntryType w = Some t"
  shows "diffRecursive (Suc fuel) tx branch (Some w) None tree result =
           Some (ReturnNil, result @ [difference DifferenceTypeAdded (Path w) t])
         \<and> diffRecursive (Suc 0) (tx\<lparr>ListWorkspaceDirectory := listing\<rparr>) branch (Some w) None
             tree result =
           Some (ReturnNil, result @ [difference DifferenceTypeAdded (Path w) t])
         \<and> (EntryName w = Some n \<and> ReadTreeEntry tx (Address entry) n = Inl err \<and>
            errors_Is err ErrNotFound \<longrightarrow>
              diffChildren (Suc fuel) tx branch entry tree (w # rest) result =
                diffChildren (Suc fuel) tx branch entry tree rest
                  (result @ [difference DifferenceTypeAdded (Path w) t]))
         \<and> (begin_tx store repoId = Inr tx \<and> ReadBranch tx branch = Inr bd \<and>
            ListWorkspaceDirectory tx branch '''' '''' '''' (- 1) = Inr [w] \<and>
            EntryName w = Some n \<and> ReadTreeEntry tx (CommitRoot bd) n = Inl err \<and>
            errors_Is err ErrNotFound \<longrightarrow>
              DiffWorkspace (Suc (Suc fuel)) store repoId branch =
                Some (Returns [difference DifferenceTypeAdded (Path w) t] None))"
  using assms
  by (simp add: readTreeEntryOrNil_def DiffWorkspace_def RepoTransact_def root_entry_def
      diffObject_def wsPath_of_def)

text \<open>
  The staged object \<open>new.txt\<close>, which the tree of the commit does not have: the call
  for it, the loop over the root that reaches it, and the diff of the store that stages
  nothing else.
\<close>

theorem diffRecursive_nil_entry_Added_witness:
  "EntryType (ws_object ''new.txt'' ''new.txt'' (Some ''cn'') 0) = Some EntryTypeObject
   \<and> diffRecursive (Suc 0) demo_ops ''main''
        (Some (ws_object ''new.txt'' ''new.txt'' (Some ''cn'') 0)) None (merkle_New ''r0'') [] =
      Some (ReturnNil, [difference DifferenceTypeAdded ''new.txt'' EntryTypeObject])
   \<and> EntryName (ws_object ''new.txt'' ''new.txt'' (Some ''cn'') 0) = Some ''new.txt''
   \<and> ReadTreeEntry demo_ops (Address (root_entry \<lparr>CommitRoot = ''r0''\<rparr>)) ''new.txt'' =
        Inl ErrNotFound
   \<and> errors_Is ErrNotFound ErrNotFound
   \<and> diffChildren (Suc 0) demo_ops ''main'' (root_entry \<lparr>CommitRoot = ''r0''\<rparr>)
        (merkle_New ''r0'') [ws_object ''new.txt'' ''new.txt'' (Some ''cn'') 0] [] =
      Some (ReturnNil, [difference DifferenceTypeAdded ''new.txt'' EntryTypeObject])
   \<and> begin_tx single_added_store ''repo'' = Inr single_added_ops
   \<and> ReadBranch single_added_ops ''main'' = Inr \<lparr>CommitRoot = ''r0''\<rparr>
   \<and> ListWorkspaceDirectory single_added_ops ''main'' '''' '''' '''' (- 1) =
        Inr [ws_object ''new.txt'' ''new.txt'' (Some ''cn'') 0]
   \<and> ReadTreeEntry single_added_ops (CommitRoot \<lparr>CommitRoot = ''r0''\<rparr>) ''new.txt'' =
        Inl ErrNotFound
   \<and> DiffWorkspace (Suc (Suc 0)) single_added_store ''repo'' ''main'' =
        Some (Returns [difference DifferenceTypeAdded ''new.txt'' EntryTypeObject] None)"
proof -
  let ?w = "ws_object ''new.txt'' ''new.txt'' (Some ''cn'') 0"
  let ?root = "root_entry \<lparr>CommitRoot = ''r0''\<rparr>"
  let ?tree = "merkle_New ''r0''"
  have t: "EntryType ?w = Some EntryTypeObject"
    and n: "EntryName ?w = Some ''new.txt''"
    and p: "Path ?w = ''new.txt''"
    by (simp_all add: ws_object_def)
  have rd: "ReadTreeEntry demo_ops (Address ?root) ''new.txt'' = Inl ErrNotFound"
    by (simp add: demo_simps)
  have nf: "errors_Is ErrNotFound ErrNotFound" by simp
  have s: "begin_tx single_added_store ''repo'' = Inr single_added_ops"
    "ReadBranch single_added_ops ''main'' = Inr \<lparr>CommitRoot = ''r0''\<rparr>"
    "ListWorkspaceDirectory single_added_ops ''main'' '''' '''' '''' (- 1) = Inr [?w]"
    "ReadTreeEntry single_added_ops (CommitRoot \<lparr>CommitRoot = ''r0''\<rparr>) ''new.txt'' =
       Inl ErrNotFound"
    by (simp_all add: single_added_store_def single_added_ops_def demo_ops_def demo_tree_def)
  note call = diffRecursive_nil_entry_Added[OF t, where fuel = 0 and tx = demo_ops
      and branch = "''main''" and tree = ?tree and result = "[]" and n = "''new.txt''"
      and entry = ?root and err = ErrNotFound and rest = "[]"]
  note whole = diffRecursive_nil_entry_Added[OF t, where fuel = 0 and tx = single_added_ops
      and branch = "''main''" and n = "''new.txt''" and err = ErrNotFound
      and store = single_added_store and repoId = "''repo''" and bd = "\<lparr>CommitRoot = ''r0''\<rparr>"]
  from call have a: "diffRecursive (Suc 0) demo_ops ''main'' (Some ?w) None ?tree [] =
      Some (ReturnNil, [difference DifferenceTypeAdded ''new.txt'' EntryTypeObject])"
    by (simp add: p)
  from call n rd nf have b: "diffChildren (Suc 0) demo_ops ''main'' ?root ?tree [?w] [] =
      Some (ReturnNil, [difference DifferenceTypeAdded ''new.txt'' EntryTypeObject])"
    by (simp add: p)
  from whole s n nf have c: "DiffWorkspace (Suc (Suc 0)) single_added_store ''repo'' ''main'' =
      Some (Returns [difference DifferenceTypeAdded ''new.txt'' EntryTypeObject] None)"
    by (simp add: p)
  show ?thesis by (intro conjI t a n rd nf b s c)
qed

text \<open>
  A new directory with a new object below it, over an empty tree: for every fuel that
  suffices the diff is the one Added difference for the directory, and the object, which
  has no tree counterpart, gets no difference for its path.
\<close>

theorem new_directory_counterexample:
  "EntryType (ws_object ''newdir/z'' ''z'' (Some ''cz'') 0) = Some EntryTypeObject
   \<and> ListWorkspaceDirectory new_dir_ops ''main'' ''newdir/'' '''' '''' (- 1) =
       Inr [ws_object ''newdir/z'' ''z'' (Some ''cz'') 0]
   \<and> (\<forall>a n. ReadTreeEntry new_dir_ops a n = Inl ErrNotFound)
   \<and> (\<forall>k. DiffWorkspace (2 + k) new_dir_store ''repo'' ''main'' =
            Some (Returns [difference DifferenceTypeAdded ''newdir/'' EntryTypeTree] None))
   \<and> difference DifferenceTypeAdded ''newdir/z'' EntryTypeObject \<notin>
       set [difference DifferenceTypeAdded ''newdir/'' EntryTypeTree]"
proof -
  have t: "EntryType (ws_object ''newdir/z'' ''z'' (Some ''cz'') 0) = Some EntryTypeObject"
    by (simp add: ws_object_def)
  have ls: "ListWorkspaceDirectory new_dir_ops ''main'' ''newdir/'' '''' '''' (- 1) =
       Inr [ws_object ''newdir/z'' ''z'' (Some ''cz'') 0]"
    by (simp add: new_dir_ops_def)
  have rd: "\<forall>a n. ReadTreeEntry new_dir_ops a n = Inl ErrNotFound"
    by (simp add: new_dir_ops_def)
  have "diffRecursive 2 new_dir_ops ''main'' None
          (Some (root_entry \<lparr>CommitRoot = ''r0''\<rparr>)) (merkle_New ''r0'') [] =
        Some (ReturnNil, [difference DifferenceTypeAdded ''newdir/'' EntryTypeTree])"
    by code_simp
  from diffRecursive_fuel_mono(1)[OF this]
  have run: "\<forall>k. diffRecursive (2 + k) new_dir_ops ''main'' None
          (Some (root_entry \<lparr>CommitRoot = ''r0''\<rparr>)) (merkle_New ''r0'') [] =
        Some (ReturnNil, [difference DifferenceTypeAdded ''newdir/'' EntryTypeTree])"
    by blast
  have tx: "begin_tx new_dir_store ''repo'' = Inr new_dir_ops"
    "ReadBranch new_dir_ops ''main'' = Inr \<lparr>CommitRoot = ''r0''\<rparr>"
    by (simp_all add: new_dir_store_def new_dir_ops_def)
  have whole: "\<forall>k. DiffWorkspace (2 + k) new_dir_store ''repo'' ''main'' =
       Some (Returns [difference DifferenceTypeAdded ''newdir/'' EntryTypeTree] None)"
    using run tx
    by (simp add: DiffWorkspace_def RepoTransact_def Let_def merkle_New_def
        del: diffRecursive.simps)
  have no: "difference DifferenceTypeAdded ''newdir/z'' EntryTypeObject \<notin>
       set [difference DifferenceTypeAdded ''newdir/'' EntryTypeTree]"
    by (simp add: difference_def)
  from t ls rd whole no show ?thesis by blast
qed

section \<open>A fully tombstoned child: Removed\<close>



section \<open>Removal is decided by the parent, for every entry type\<close>

text \<open>
  C9. The comparison of the tombstone count with the object count in the loop of the
  parent does not look at the entry type of the staged child: for every type \<open>t\<close>, and
  so for an object, a child whose tombstone count equals the object count of the tree
  entry of its name contributes one Removed difference with path type \<open>t\<close> and is not
  recursed into. It is the only place where a removal is reported: every Removed
  difference that a call of \<open>diffRecursive\<close> adds to the result was emitted by that
  comparison, for an entry that the store lists.
\<close>

theorem diffChildren_Removed_any_type:
  "(EntryName c = Some n \<and> ReadTreeEntry tx (Address entry) n = Inr (Some treeChild) \<and>
    TombstoneCount c = ObjectCount treeChild \<and> EntryType c = Some t \<longrightarrow>
      diffChildren fuel tx branch entry tree (c # rest) result =
        diffChildren fuel tx branch entry tree rest
          (result @ [difference DifferenceTypeRemoved (Path c) t]))
   \<and> (diffRecursive fuel tx branch wsEntry e tree result = Some (out, r) \<longrightarrow>
        (\<exists>ds. r = result @ ds \<and>
           (\<forall>d \<in> set ds. Type d = DifferenceTypeRemoved \<longrightarrow> removed_at_parent tx branch d)))"
proof (intro conjI impI)
  assume "EntryName c = Some n \<and> ReadTreeEntry tx (Address entry) n = Inr (Some treeChild) \<and>
    TombstoneCount c = ObjectCount treeChild \<and> EntryType c = Some t"
  then show "diffChildren fuel tx branch entry tree (c # rest) result =
        diffChildren fuel tx branch entry tree rest
          (result @ [difference DifferenceTypeRemoved (Path c) t])"
    by (simp add: readTreeEntryOrNil_def)
next
  assume "diffRecursive fuel tx branch wsEntry e tree result = Some (out, r)"
  from diff_removed_provenance(1)[OF this]
  show "\<exists>ds. r = result @ ds \<and>
           (\<forall>d \<in> set ds. Type d = DifferenceTypeRemoved \<longrightarrow> removed_at_parent tx branch d)"
    by (simp add: parent_removals_def)
qed

text \<open>
  The tombstoned object \<open>dir/x\<close> below the partly tombstoned directory \<open>dir/\<close>, and
  the whole diff of the branch with its two removals.
\<close>

theorem diffChildren_Removed_any_type_witness:
  "EntryName (ws_object ''dir/x'' ''x'' None 1) = Some ''x''
   \<and> ReadTreeEntry demo_ops (Address (tree_dir ''dir'' ''t1'' 2)) ''x'' =
       Inr (Some (tree_object ''x'' ''o3'' ''cx'' 1))
   \<and> TombstoneCount (ws_object ''dir/x'' ''x'' None 1) = ObjectCount (tree_object ''x'' ''o3'' ''cx'' 1)
   \<and> EntryType (ws_object ''dir/x'' ''x'' None 1) = Some EntryTypeObject
   \<and> diffChildren 0 demo_ops ''main'' (tree_dir ''dir'' ''t1'' 2) (merkle_New ''r0'')
        [ws_object ''dir/x'' ''x'' None 1] [] =
      Some (ReturnNil, [difference DifferenceTypeRemoved ''dir/x'' EntryTypeObject])
   \<and> diffRecursive 3 demo_ops ''main'' None (Some (root_entry \<lparr>CommitRoot = ''r0''\<rparr>))
        (merkle_New ''r0'') [] =
      Some (ReturnNil,
        [difference DifferenceTypeChanged ''a.txt'' EntryTypeObject,
         difference DifferenceTypeRemoved ''dir/x'' EntryTypeObject,
         difference DifferenceTypeAdded ''dir/z'' EntryTypeObject,
         difference DifferenceTypeRemoved ''gone/'' EntryTypeTree,
         difference DifferenceTypeAdded ''new.txt'' EntryTypeObject])
   \<and> removed_at_parent demo_ops ''main'' (difference DifferenceTypeRemoved ''dir/x'' EntryTypeObject)
   \<and> removed_at_parent demo_ops ''main'' (difference DifferenceTypeRemoved ''gone/'' EntryTypeTree)"
proof -
  have h: "EntryName (ws_object ''dir/x'' ''x'' None 1) = Some ''x''
     \<and> ReadTreeEntry demo_ops (Address (tree_dir ''dir'' ''t1'' 2)) ''x'' =
         Inr (Some (tree_object ''x'' ''o3'' ''cx'' 1))
     \<and> TombstoneCount (ws_object ''dir/x'' ''x'' None 1) =
         ObjectCount (tree_object ''x'' ''o3'' ''cx'' 1)
     \<and> EntryType (ws_object ''dir/x'' ''x'' None 1) = Some EntryTypeObject"
    by (simp add: demo_simps)
  have run: "diffRecursive 3 demo_ops ''main'' None (Some (root_entry \<lparr>CommitRoot = ''r0''\<rparr>))
        (merkle_New ''r0'') [] =
      Some (ReturnNil,
        [difference DifferenceTypeChanged ''a.txt'' EntryTypeObject,
         difference DifferenceTypeRemoved ''dir/x'' EntryTypeObject,
         difference DifferenceTypeAdded ''dir/z'' EntryTypeObject,
         difference DifferenceTypeRemoved ''gone/'' EntryTypeTree,
         difference DifferenceTypeAdded ''new.txt'' EntryTypeObject])"
    by code_simp
  have p: "Path (ws_object ''dir/x'' ''x'' None 1) = ''dir/x''"
    by (simp add: ws_object_def)
  note step = diffChildren_Removed_any_type[of "ws_object ''dir/x'' ''x'' None 1" "''x''" demo_ops
      "tree_dir ''dir'' ''t1'' 2" "tree_object ''x'' ''o3'' ''cx'' 1" EntryTypeObject 0 "''main''"
      "merkle_New ''r0''" "[]" "[]", THEN conjunct1, rule_format, OF h]
  note all = diffChildren_Removed_any_type[of _ _ demo_ops _ _ _ 3 "''main''"
      _ _ "[]" None "Some (root_entry \<lparr>CommitRoot = ''r0''\<rparr>)" ReturnNil,
      THEN conjunct2, rule_format, OF run]
  from all have
    "removed_at_parent demo_ops ''main'' (difference DifferenceTypeRemoved ''dir/x'' EntryTypeObject)"
    "removed_at_parent demo_ops ''main'' (difference DifferenceTypeRemoved ''gone/'' EntryTypeTree)"
    by (auto simp: difference_def)
  with step h run p show ?thesis by simp
qed

section \<open>A tombstoned object reports nothing itself\<close>

text \<open>
  C5. A call of \<open>diffRecursive\<close> for a staged object with at least one tombstone and
  with a tree entry returns nil and leaves the result as it was. Whether the object is
  reported as removed is decided in the loop of its parent alone, by the comparison of
  its tombstone count with the object count of its tree entry: Removed when they are
  equal, nothing otherwise.
\<close>

theorem diffRecursive_tombstoned_object_silent:
  assumes "EntryType w = Some EntryTypeObject" and "TombstoneCount w \<ge> 1"
  shows "diffRecursive (Suc fuel) tx branch (Some w) (Some entry) tree result =
           Some (ReturnNil, result)
         \<and> (EntryName w = Some n \<and> ReadTreeEntry tx (Address parent) n = Inr (Some entry) \<longrightarrow>
              diffChildren (Suc fuel) tx branch parent tree (w # rest) result =
                diffChildren (Suc fuel) tx branch parent tree rest
                  (if TombstoneCount w = ObjectCount entry
                   then result @ [difference DifferenceTypeRemoved (Path w) EntryTypeObject]
                   else result))"
  using assms by (simp add: diffObject_def readTreeEntryOrNil_def)

text \<open>
  The staged tombstone for \<open>dir/w\<close>, whose tree entry has object count zero: neither
  the call for it nor the loop of the parent adds a difference.
\<close>

theorem diffRecursive_tombstoned_object_silent_witness:
  "EntryType (ws_object ''dir/w'' ''w'' None 1) = Some EntryTypeObject
   \<and> TombstoneCount (ws_object ''dir/w'' ''w'' None 1) \<ge> 1
   \<and> diffRecursive (Suc 0) demo_ops ''main'' (Some (ws_object ''dir/w'' ''w'' None 1))
        (Some (tree_object ''w'' ''o2'' ''cw'' 0)) (merkle_New ''r0'') [] = Some (ReturnNil, [])
   \<and> EntryName (ws_object ''dir/w'' ''w'' None 1) = Some ''w''
   \<and> ReadTreeEntry demo_ops (Address (tree_dir ''dir'' ''t1'' 2)) ''w'' =
        Inr (Some (tree_object ''w'' ''o2'' ''cw'' 0))
   \<and> diffChildren (Suc 0) demo_ops ''main'' (tree_dir ''dir'' ''t1'' 2) (merkle_New ''r0'')
        [ws_object ''dir/w'' ''w'' None 1] [] = Some (ReturnNil, [])"
proof -
  have t: "EntryType (ws_object ''dir/w'' ''w'' None 1) = Some EntryTypeObject"
    and k: "TombstoneCount (ws_object ''dir/w'' ''w'' None 1) \<ge> 1"
    and n: "EntryName (ws_object ''dir/w'' ''w'' None 1) = Some ''w''"
    by (simp_all add: ws_object_def)
  have rd: "ReadTreeEntry demo_ops (Address (tree_dir ''dir'' ''t1'' 2)) ''w'' =
        Inr (Some (tree_object ''w'' ''o2'' ''cw'' 0))"
    by (simp add: demo_simps)
  have c: "TombstoneCount (ws_object ''dir/w'' ''w'' None 1) \<noteq>
           ObjectCount (tree_object ''w'' ''o2'' ''cw'' 0)"
    by (simp add: ws_object_def tree_object_def)
  from diffRecursive_tombstoned_object_silent[OF t k, of 0 demo_ops "''main''"
      "tree_object ''w'' ''o2'' ''cw'' 0" "merkle_New ''r0''" "[]" "''w''"
      "tree_dir ''dir'' ''t1'' 2" "[]"]
  show ?thesis using t k n rd c by simp
qed

section \<open>A staged object with content\<close>

text \<open>
  C3. For a staged object without tombstone that has a checksum and a tree entry: when
  the checksums differ, \<open>diffRecursive\<close> appends exactly one Changed difference for
  the path and returns nil at once, for every store. When they are equal the object
  case does not return: the call continues with the directory part and lists the path
  of the object. It contributes no difference when that listing is empty. Without this
  condition the statement fails, as the store \<open>below_object_ops\<close> shows after the
  theorem.
\<close>

theorem diffRecursive_object_checksum:
  assumes "EntryType w = Some EntryTypeObject"
      and "TombstoneCount w = 0"
      and "EntryChecksum w = Some c"
  shows "(Checksum entry \<noteq> c \<longrightarrow>
            diffRecursive (Suc fuel) tx branch (Some w) (Some entry) tree result =
              Some (ReturnNil,
                result @ [difference DifferenceTypeChanged (Path w) EntryTypeObject]))
         \<and> (Checksum entry = c \<and>
            ListWorkspaceDirectory tx branch (Path w) '''' '''' (- 1) = Inr [] \<longrightarrow>
              diffRecursive (Suc fuel) tx branch (Some w) (Some entry) tree result =
                Some (ReturnNil, result))"
  using assms by (simp add: diffObject_def wsPath_of_def)

text \<open>The staged \<open>a.txt\<close> against a tree entry with another and with the same checksum.\<close>

theorem diffRecursive_object_checksum_witness:
  "EntryType (ws_object ''a.txt'' ''a.txt'' (Some ''c2'') 0) = Some EntryTypeObject
   \<and> TombstoneCount (ws_object ''a.txt'' ''a.txt'' (Some ''c2'') 0) = 0
   \<and> EntryChecksum (ws_object ''a.txt'' ''a.txt'' (Some ''c2'') 0) = Some ''c2''
   \<and> Checksum (tree_object ''a.txt'' ''o1'' ''c1'' 1) \<noteq> ''c2''
   \<and> diffRecursive (Suc 0) demo_ops ''main'' (Some (ws_object ''a.txt'' ''a.txt'' (Some ''c2'') 0))
        (Some (tree_object ''a.txt'' ''o1'' ''c1'' 1)) (merkle_New ''r0'') [] =
      Some (ReturnNil, [difference DifferenceTypeChanged ''a.txt'' EntryTypeObject])
   \<and> Checksum (tree_object ''a.txt'' ''o1'' ''c2'' 1) = ''c2''
   \<and> ListWorkspaceDirectory demo_ops ''main'' (Path (ws_object ''a.txt'' ''a.txt'' (Some ''c2'') 0))
        '''' '''' (- 1) = Inr []
   \<and> diffRecursive (Suc 0) demo_ops ''main'' (Some (ws_object ''a.txt'' ''a.txt'' (Some ''c2'') 0))
        (Some (tree_object ''a.txt'' ''o1'' ''c2'' 1)) (merkle_New ''r0'') [] =
      Some (ReturnNil, [])"
proof -
  have t: "EntryType (ws_object ''a.txt'' ''a.txt'' (Some ''c2'') 0) = Some EntryTypeObject"
    and k: "TombstoneCount (ws_object ''a.txt'' ''a.txt'' (Some ''c2'') 0) = 0"
    and c: "EntryChecksum (ws_object ''a.txt'' ''a.txt'' (Some ''c2'') 0) = Some ''c2''"
    and p: "Path (ws_object ''a.txt'' ''a.txt'' (Some ''c2'') 0) = ''a.txt''"
    by (simp_all add: ws_object_def)
  have differs: "Checksum (tree_object ''a.txt'' ''o1'' ''c1'' 1) \<noteq> ''c2''"
    and equal: "Checksum (tree_object ''a.txt'' ''o1'' ''c2'' 1) = ''c2''"
    by (simp_all add: tree_object_def)
  have ls: "ListWorkspaceDirectory demo_ops ''main''
      (Path (ws_object ''a.txt'' ''a.txt'' (Some ''c2'') 0)) '''' '''' (- 1) = Inr []"
    by (simp add: demo_simps)
  from diffRecursive_object_checksum[OF t k c, of "tree_object ''a.txt'' ''o1'' ''c1'' 1"
      0 demo_ops "''main''" "merkle_New ''r0''" "[]"]
    diffRecursive_object_checksum[OF t k c, of "tree_object ''a.txt'' ''o1'' ''c2'' 1"
      0 demo_ops "''main''" "merkle_New ''r0''" "[]"]
  show ?thesis using t k c p differs equal ls by simp
qed

text \<open>
  A staged object whose checksum equals that of its tree entry, in a store that lists a
  staged entry below the path of the object: the call adds a difference.
\<close>

theorem equal_checksum_counterexample:
  "EntryType (ws_object ''a.txt'' ''a.txt'' (Some ''c1'') 0) = Some EntryTypeObject
   \<and> TombstoneCount (ws_object ''a.txt'' ''a.txt'' (Some ''c1'') 0) = 0
   \<and> EntryChecksum (ws_object ''a.txt'' ''a.txt'' (Some ''c1'') 0) =
       Some (Checksum (tree_object ''a.txt'' ''o1'' ''c1'' 1))
   \<and> diffRecursive 2 below_object_ops ''main''
        (Some (ws_object ''a.txt'' ''a.txt'' (Some ''c1'') 0))
        (Some (tree_object ''a.txt'' ''o1'' ''c1'' 1)) (merkle_New ''r0'') [] =
      Some (ReturnNil, [difference DifferenceTypeAdded ''a.txt/x'' EntryTypeObject])"
  by code_simp

section \<open>A staged object without checksum\<close>

text \<open>
  C4. For a staged object whose checksum is absent: with a nil tree entry the call
  appends the Added difference and returns nil; with at least one tombstone it returns
  nil and adds nothing; and whenever the tombstone count is not zero the checksum is
  not read at all, the call gives what it gives for any checksum put in its place.
  With tombstone count zero and a tree entry the comparison dereferences the nil
  pointer, as the store \<open>nil_checksum_ops\<close> shows after the theorem.
\<close>

theorem diffRecursive_absent_checksum:
  assumes "EntryType w = Some EntryTypeObject" and "EntryChecksum w = None"
  shows "diffRecursive (Suc fuel) tx branch (Some w) None tree result =
           Some (ReturnNil, result @ [difference DifferenceTypeAdded (Path w) EntryTypeObject])
         \<and> (TombstoneCount w \<ge> 1 \<longrightarrow>
              diffRecursive (Suc fuel) tx branch (Some w) (Some entry) tree result =
                Some (ReturnNil, result))
         \<and> (TombstoneCount w \<noteq> 0 \<longrightarrow>
              diffRecursive (Suc fuel) tx branch (Some w) (Some entry) tree result =
                diffRecursive (Suc fuel) tx branch (Some (w\<lparr>EntryChecksum := Some c\<rparr>))
                  (Some entry) tree result)"
  using assms by (simp add: diffObject_def wsPath_of_def)

text \<open>The tombstone staged for \<open>dir/x\<close>, which has no checksum.\<close>

theorem diffRecursive_absent_checksum_witness:
  "EntryType (ws_object ''dir/x'' ''x'' None 1) = Some EntryTypeObject
   \<and> EntryChecksum (ws_object ''dir/x'' ''x'' None 1) = None
   \<and> diffRecursive (Suc 0) demo_ops ''main'' (Some (ws_object ''dir/x'' ''x'' None 1)) None
        (merkle_New ''r0'') [] =
      Some (ReturnNil, [difference DifferenceTypeAdded ''dir/x'' EntryTypeObject])
   \<and> TombstoneCount (ws_object ''dir/x'' ''x'' None 1) \<ge> 1
   \<and> diffRecursive (Suc 0) demo_ops ''main'' (Some (ws_object ''dir/x'' ''x'' None 1))
        (Some (tree_object ''x'' ''o3'' ''cx'' 0)) (merkle_New ''r0'') [] = Some (ReturnNil, [])
   \<and> TombstoneCount (ws_object ''dir/x'' ''x'' None 1) \<noteq> 0
   \<and> diffRecursive (Suc 0) demo_ops ''main''
        (Some ((ws_object ''dir/x'' ''x'' None 1)\<lparr>EntryChecksum := Some ''cx''\<rparr>))
        (Some (tree_object ''x'' ''o3'' ''cx'' 0)) (merkle_New ''r0'') [] = Some (ReturnNil, [])"
proof -
  have t: "EntryType (ws_object ''dir/x'' ''x'' None 1) = Some EntryTypeObject"
    and c: "EntryChecksum (ws_object ''dir/x'' ''x'' None 1) = None"
    and k: "TombstoneCount (ws_object ''dir/x'' ''x'' None 1) \<ge> 1"
    and k0: "TombstoneCount (ws_object ''dir/x'' ''x'' None 1) \<noteq> 0"
    and p: "Path (ws_object ''dir/x'' ''x'' None 1) = ''dir/x''"
    by (simp_all add: ws_object_def)
  from diffRecursive_absent_checksum[OF t c, of 0 demo_ops "''main''" "merkle_New ''r0''" "[]"
      "tree_object ''x'' ''o3'' ''cx'' 0" "''cx''"]
  show ?thesis using t c k k0 p by (simp add: diffObject_def ws_object_def)
qed

text \<open>
  A staged object without checksum and without tombstone whose path the tree has: the
  call panics, and so does \<open>DiffWorkspace\<close>.
\<close>

theorem absent_checksum_counterexample:
  "EntryType (ws_object ''a.txt'' ''a.txt'' None 0) = Some EntryTypeObject
   \<and> EntryChecksum (ws_object ''a.txt'' ''a.txt'' None 0) = None
   \<and> ListWorkspaceDirectory nil_checksum_ops ''main'' '''' '''' '''' (- 1) =
       Inr [ws_object ''a.txt'' ''a.txt'' None 0]
   \<and> diffRecursive 1 nil_checksum_ops ''main'' (Some (ws_object ''a.txt'' ''a.txt'' None 0))
        (Some (tree_object ''a.txt'' ''o1'' ''c1'' 1)) (merkle_New ''r0'') [] =
      Some (NilDereference, [])
   \<and> DiffWorkspace 2 nil_checksum_store ''repo'' ''main'' = Some Panics"
  by code_simp

section \<open>DiffWorkspace returns the whole list or an error\<close>




section \<open>Termination\<close>

text \<open>
  C10. When every listing returns only entries whose paths properly extend the listed
  path, and the paths that listings return are no longer than some \<open>N\<close> (as in every
  finite workspace), \<open>diffRecursive\<close> returns on every input: \<open>N + 1\<close> units of fuel
  suffice, and more fuel gives the same result. The branches for a nil tree entry, for
  a tombstoned object and for a fully tombstoned child return without a nested call:
  with one unit of fuel, and in the loop with none. The bound on the paths cannot be
  dropped, as the store \<open>deep_ops\<close> shows after the theorem.
\<close>

theorem diffRecursive_terminates_bounded:
  assumes "listing_deeper tx branch" and "listing_bounded tx branch N"
  shows "(\<exists>r. \<forall>k. diffRecursive (Suc N + k) tx branch wsEntry entry tree result = Some r)
         \<and> diffRecursive (Suc 0) tx branch (Some w) None tree result \<noteq> None
         \<and> (EntryType w = Some EntryTypeObject \<and> TombstoneCount w \<ge> 1 \<longrightarrow>
              diffRecursive (Suc 0) tx branch (Some w) (Some e) tree result \<noteq> None)
         \<and> (EntryName w = Some n \<and> ReadTreeEntry tx (Address e) n = Inr (Some treeChild) \<and>
            TombstoneCount w = ObjectCount treeChild \<longrightarrow>
              diffChildren 0 tx branch e tree [w] result \<noteq> None)"
proof (intro conjI impI)
  have "N - length (wsPath_of wsEntry) \<le> N" by simp
  from diffRecursive_returns[OF assms this]
  obtain r where r: "diffRecursive (Suc N) tx branch wsEntry entry tree result = Some r"
    by blast
  from diffRecursive_fuel_mono(1)[OF r]
  show "\<exists>r. \<forall>k. diffRecursive (Suc N + k) tx branch wsEntry entry tree result = Some r"
    by blast
next
  show "diffRecursive (Suc 0) tx branch (Some w) None tree result \<noteq> None"
    by (simp split: option.splits)
next
  assume "EntryType w = Some EntryTypeObject \<and> TombstoneCount w \<ge> 1"
  then show "diffRecursive (Suc 0) tx branch (Some w) (Some e) tree result \<noteq> None"
    by (simp add: diffObject_def)
next
  assume "EntryName w = Some n \<and> ReadTreeEntry tx (Address e) n = Inr (Some treeChild) \<and>
            TombstoneCount w = ObjectCount treeChild"
  then show "diffChildren 0 tx branch e tree [w] result \<noteq> None"
    by (simp add: readTreeEntryOrNil_def split: option.splits)
qed

text \<open>
  The demonstration store, whose longest staged path has seven characters, with the
  tombstoned object \<open>dir/w\<close> and the fully tombstoned directory \<open>gone/\<close>.
\<close>

theorem diffRecursive_terminates_bounded_witness:
  "listing_deeper demo_ops ''main''
   \<and> listing_bounded demo_ops ''main'' 7
   \<and> (\<exists>r. \<forall>k. diffRecursive (Suc 7 + k) demo_ops ''main'' None
               (Some (root_entry \<lparr>CommitRoot = ''r0''\<rparr>)) (merkle_New ''r0'') [] = Some r)
   \<and> diffRecursive 8 demo_ops ''main'' None
        (Some (root_entry \<lparr>CommitRoot = ''r0''\<rparr>)) (merkle_New ''r0'') [] =
      Some (ReturnNil,
        [difference DifferenceTypeChanged ''a.txt'' EntryTypeObject,
         difference DifferenceTypeRemoved ''dir/x'' EntryTypeObject,
         difference DifferenceTypeAdded ''dir/z'' EntryTypeObject,
         difference DifferenceTypeRemoved ''gone/'' EntryTypeTree,
         difference DifferenceTypeAdded ''new.txt'' EntryTypeObject])
   \<and> EntryType (ws_object ''dir/w'' ''w'' None 1) = Some EntryTypeObject
   \<and> TombstoneCount (ws_object ''dir/w'' ''w'' None 1) \<ge> 1
   \<and> diffRecursive (Suc 0) demo_ops ''main'' (Some (ws_object ''dir/w'' ''w'' None 1))
        (Some (tree_dir ''dir'' ''t1'' 2)) (merkle_New ''r0'') [] \<noteq> None
   \<and> EntryName (ws_tree ''gone/'' ''gone'' 3) = Some ''gone''
   \<and> ReadTreeEntry demo_ops (Address (root_entry \<lparr>CommitRoot = ''r0''\<rparr>)) ''gone'' =
       Inr (Some (tree_dir ''gone'' ''t2'' 3))
   \<and> TombstoneCount (ws_tree ''gone/'' ''gone'' 3) = ObjectCount (tree_dir ''gone'' ''t2'' 3)
   \<and> diffChildren 0 demo_ops ''main'' (root_entry \<lparr>CommitRoot = ''r0''\<rparr>) (merkle_New ''r0'')
        [ws_tree ''gone/'' ''gone'' 3] [] \<noteq> None"
proof -
  have t: "EntryType (ws_object ''dir/w'' ''w'' None 1) = Some EntryTypeObject"
    and k: "TombstoneCount (ws_object ''dir/w'' ''w'' None 1) \<ge> 1"
    by (simp_all add: ws_object_def)
  have g: "EntryName (ws_tree ''gone/'' ''gone'' 3) = Some ''gone''"
    "ReadTreeEntry demo_ops (Address (root_entry \<lparr>CommitRoot = ''r0''\<rparr>)) ''gone'' =
       Inr (Some (tree_dir ''gone'' ''t2'' 3))"
    "TombstoneCount (ws_tree ''gone/'' ''gone'' 3) = ObjectCount (tree_dir ''gone'' ''t2'' 3)"
    by (simp_all add: demo_simps)
  note removed = diffRecursive_terminates_bounded[OF demo_listing_deeper demo_listing_bounded,
      where tree = "merkle_New ''r0''" and result = "[]"
        and w = "ws_tree ''gone/'' ''gone'' 3" and n = "''gone''"
        and e = "root_entry \<lparr>CommitRoot = ''r0''\<rparr>"
        and treeChild = "tree_dir ''gone'' ''t2'' 3"]
  from removed g have c: "diffChildren 0 demo_ops ''main'' (root_entry \<lparr>CommitRoot = ''r0''\<rparr>)
        (merkle_New ''r0'') [ws_tree ''gone/'' ''gone'' 3] [] \<noteq> None"
    by blast
  note main = diffRecursive_terminates_bounded[OF demo_listing_deeper demo_listing_bounded,
      where wsEntry = None and entry = "Some (root_entry \<lparr>CommitRoot = ''r0''\<rparr>)"
        and tree = "merkle_New ''r0''" and result = "[]"
        and w = "ws_object ''dir/w'' ''w'' None 1" and e = "tree_dir ''dir'' ''t1'' 2"]
  have run: "diffRecursive 8 demo_ops ''main'' None
        (Some (root_entry \<lparr>CommitRoot = ''r0''\<rparr>)) (merkle_New ''r0'') [] =
      Some (ReturnNil,
        [difference DifferenceTypeChanged ''a.txt'' EntryTypeObject,
         difference DifferenceTypeRemoved ''dir/x'' EntryTypeObject,
         difference DifferenceTypeAdded ''dir/z'' EntryTypeObject,
         difference DifferenceTypeRemoved ''gone/'' EntryTypeTree,
         difference DifferenceTypeAdded ''new.txt'' EntryTypeObject])"
    by code_simp
  from main have a: "\<exists>r. \<forall>k. diffRecursive (Suc 7 + k) demo_ops ''main'' None
               (Some (root_entry \<lparr>CommitRoot = ''r0''\<rparr>)) (merkle_New ''r0'') [] = Some r"
    by (rule conjunct1)
  from main t k have b: "diffRecursive (Suc 0) demo_ops ''main''
        (Some (ws_object ''dir/w'' ''w'' None 1))
        (Some (tree_dir ''dir'' ''t1'' 2)) (merkle_New ''r0'') [] \<noteq> None"
    by blast
  show ?thesis
    by (intro conjI demo_listing_deeper demo_listing_bounded a run t k b g c)
qed

text \<open>
  A store in which every listing returns a directory one level deeper: the listings go
  strictly deeper, and no amount of fuel lets the call return.
\<close>

theorem deeper_listing_counterexample:
  "listing_deeper deep_ops ''main''
   \<and> (\<forall>fuel. diffRecursive fuel deep_ops ''main'' None
                (Some (root_entry \<lparr>CommitRoot = ''r0''\<rparr>)) (merkle_New ''r0'') [] = None)"
  using deep_ops_deeper[of "''main''"] deep_ops_never_returns by blast

section \<open>Reverting a staged entry\<close>

text \<open>
  When the names are valid, the branch is resolved and neither the transaction nor the
  driver reports a failure, the outcome is decided by the number of rows the statement
  deletes.
\<close>

lemma RevertEntry_reaches_delete:
  assumes "Validate c repository branch p = None"
      and "getBranchID c db repository branch LockTypeShare = Inr branchID"
      and "transact_failure c = None"
      and "exec_failure c = None"
      and "rows_affected_failure c = None"
  shows "RevertEntry c db repository branch p =
           (if snd (tx_Exec_delete db branchID p) \<noteq> 1 then (Some ErrEntryNotFound, db)
            else (None, fst (tx_Exec_delete db branchID p)))"
  using assms by (simp add: RevertEntry_def db_Transact_def split: prod.splits)

text \<open>A call that returns nil deleted exactly one staged row of the branch.\<close>

lemma RevertEntry_success:
  assumes "fst (RevertEntry c db repository branch p) = None"
  shows "\<exists>branchID. getBranchID c db repository branch LockTypeShare = Inr branchID \<and>
           length (filter (staged_at branchID p) (entries db)) = 1 \<and>
           snd (RevertEntry c db repository branch p) =
             db\<lparr>entries := filter (\<lambda>r. \<not> staged_at branchID p r) (entries db)\<rparr>"
  using assms
  by (auto simp: RevertEntry_def db_Transact_def tx_Exec_delete_def
      split: option.splits sum.splits prod.splits if_splits)

lemmas revert_simps = demo_collaborators_def demo_db_def duplicate_db_def row_def staged_at_def

text \<open>
  C8. A call of \<open>RevertEntry\<close> that reaches the statement (valid names, a branch that
  is resolved, no failure of the transaction or the driver) for a path without staged
  row of the branch fails with \<open>ErrEntryNotFound\<close> and leaves the table as it was.
  And a call that succeeds found exactly one staged row for the path: revert succeeds
  only from the staged state.
\<close>

theorem RevertEntry_no_staged_row:
  assumes "Validate c repository branch p = None"
      and "getBranchID c db repository branch LockTypeShare = Inr branchID"
      and "transact_failure c = None"
      and "exec_failure c = None"
      and "rows_affected_failure c = None"
      and "filter (staged_at branchID p) (entries db) = []"
  shows "RevertEntry c db repository branch p = (Some ErrEntryNotFound, db)
         \<and> (fst (RevertEntry c' db' repository' branch' p') = None \<longrightarrow>
              (\<exists>b. getBranchID c' db' repository' branch' LockTypeShare = Inr b \<and>
                   length (filter (staged_at b p') (entries db')) = 1))"
proof
  from assms(6) have "snd (tx_Exec_delete db branchID p) = 0"
    by (simp add: tx_Exec_delete_def)
  with RevertEntry_reaches_delete[OF assms(1-5)]
  show "RevertEntry c db repository branch p = (Some ErrEntryNotFound, db)" by simp
next
  show "fst (RevertEntry c' db' repository' branch' p') = None \<longrightarrow>
      (\<exists>b. getBranchID c' db' repository' branch' LockTypeShare = Inr b \<and>
           length (filter (staged_at b p') (entries db')) = 1)"
    using RevertEntry_success[of c' db' repository' branch' p'] by blast
qed

text \<open>
  The path \<open>q\<close>, for which the branch has a committed row only, and the path \<open>a/b\<close>
  with its one staged row.
\<close>

theorem RevertEntry_no_staged_row_witness:
  "Validate demo_collaborators ''repo'' ''main'' ''q'' = None
   \<and> getBranchID demo_collaborators demo_db ''repo'' ''main'' LockTypeShare = Inr 1
   \<and> transact_failure demo_collaborators = None
   \<and> exec_failure demo_collaborators = None
   \<and> rows_affected_failure demo_collaborators = None
   \<and> filter (staged_at 1 ''q'') (entries demo_db) = []
   \<and> RevertEntry demo_collaborators demo_db ''repo'' ''main'' ''q'' = (Some ErrEntryNotFound, demo_db)
   \<and> fst (RevertEntry demo_collaborators demo_db ''repo'' ''main'' ''a/b'') = None
   \<and> (\<exists>b. getBranchID demo_collaborators demo_db ''repo'' ''main'' LockTypeShare = Inr b \<and>
          length (filter (staged_at b ''a/b'') (entries demo_db)) = 1)"
proof -
  have h: "Validate demo_collaborators ''repo'' ''main'' ''q'' = None"
    "getBranchID demo_collaborators demo_db ''repo'' ''main'' LockTypeShare = Inr 1"
    "transact_failure demo_collaborators = None"
    "exec_failure demo_collaborators = None"
    "rows_affected_failure demo_collaborators = None"
    "filter (staged_at 1 ''q'') (entries demo_db) = []"
    by (simp_all add: revert_simps)
  have ok: "fst (RevertEntry demo_collaborators demo_db ''repo'' ''main'' ''a/b'') = None"
    by (simp add: RevertEntry_def db_Transact_def tx_Exec_delete_def revert_simps)
  note main = RevertEntry_no_staged_row[OF h, where c' = demo_collaborators and db' = demo_db
      and repository' = "''repo''" and branch' = "''main''" and p' = "''a/b''"]
  from main have a: "RevertEntry demo_collaborators demo_db ''repo'' ''main'' ''q'' =
      (Some ErrEntryNotFound, demo_db)" by (rule conjunct1)
  from main ok have b: "\<exists>b. getBranchID demo_collaborators demo_db ''repo'' ''main'' LockTypeShare =
      Inr b \<and> length (filter (staged_at b ''a/b'') (entries demo_db)) = 1" by blast
  show ?thesis by (intro conjI h a ok b)
qed

text \<open>
  C1. A call of \<open>RevertEntry\<close> that reaches the statement (valid names, a branch that
  is resolved, no failure of the transaction or the driver) and deletes more than one
  row does not succeed: it fails with \<open>ErrEntryNotFound\<close>, the error of the case with
  no row. The source tests \<^verbatim>\<open>affected != 1\<close> and has no error of its own for more than
  one row, as the table \<open>duplicate_db\<close> shows after the theorem.
\<close>

theorem RevertEntry_many_rows:
  assumes "Validate c repository branch p = None"
      and "getBranchID c db repository branch LockTypeShare = Inr branchID"
      and "transact_failure c = None"
      and "exec_failure c = None"
      and "rows_affected_failure c = None"
      and "snd (tx_Exec_delete db branchID p) > 1"
  shows "fst (RevertEntry c db repository branch p) = Some ErrEntryNotFound"
  using RevertEntry_reaches_delete[OF assms(1-5)] assms(6) by simp

text \<open>A table with two staged rows for the path \<open>a/b\<close> of the branch.\<close>

theorem RevertEntry_many_rows_witness:
  "Validate demo_collaborators ''repo'' ''main'' ''a/b'' = None
   \<and> getBranchID demo_collaborators duplicate_db ''repo'' ''main'' LockTypeShare = Inr 1
   \<and> transact_failure demo_collaborators = None
   \<and> exec_failure demo_collaborators = None
   \<and> rows_affected_failure demo_collaborators = None
   \<and> snd (tx_Exec_delete duplicate_db 1 ''a/b'') > 1
   \<and> fst (RevertEntry demo_collaborators duplicate_db ''repo'' ''main'' ''a/b'') =
       Some ErrEntryNotFound"
proof -
  have h: "Validate demo_collaborators ''repo'' ''main'' ''a/b'' = None"
    "getBranchID demo_collaborators duplicate_db ''repo'' ''main'' LockTypeShare = Inr 1"
    "transact_failure demo_collaborators = None"
    "exec_failure demo_collaborators = None"
    "rows_affected_failure demo_collaborators = None"
    "snd (tx_Exec_delete duplicate_db 1 ''a/b'') > 1"
    by (simp_all add: revert_simps tx_Exec_delete_def)
  show ?thesis by (intro conjI h RevertEntry_many_rows[OF h])
qed

text \<open>
  Two rows deleted and no row deleted end in the same error: the error for more than
  one row is not distinct from \<open>ErrEntryNotFound\<close>.
\<close>

theorem RevertEntry_many_rows_counterexample:
  "snd (tx_Exec_delete duplicate_db 1 ''a/b'') = 2
   \<and> fst (RevertEntry demo_collaborators duplicate_db ''repo'' ''main'' ''a/b'') =
       Some ErrEntryNotFound
   \<and> snd (tx_Exec_delete demo_db 1 ''q'') = 0
   \<and> fst (RevertEntry demo_collaborators demo_db ''repo'' ''main'' ''q'') =
       Some ErrEntryNotFound"
  by (simp add: RevertEntry_def db_Transact_def tx_Exec_delete_def revert_simps)

end
